theory Spec2Isabelle
  imports Complex_Main
begin

section \<open>Evaluation notebooks of python-chebai: a shallow embedding\<close>

text \<open>
  The development embeds the computations of the tutorial notebook
  \<^verbatim>\<open>tutorials/process_results_old_chebi.ipynb\<close> (class-vocabulary alignment and the
  accumulation loop of \<^verbatim>\<open>evaluate_model\<close>) and of the workflow step
  \<^verbatim>\<open>Verify constants\<close>. A tensor of rank two is the list of its rows; Python
  exceptions are values of the type \<open>error\<close>.
\<close>

subsection \<open>Reading the class files\<close>

text \<open>
  \<^verbatim>\<open>file.readlines()\<close> on a file opened in text mode: line endings are translated to
  the line feed, and every line keeps its terminating line feed. The last line has none
  when the file does not end in one.
\<close>

definition LF :: char where
  "LF = CHR 0x0A"

definition CR :: char where
  "CR = CHR 0x0D"

fun universal_newlines :: "string \<Rightarrow> string" where
  "universal_newlines [] = []"
| "universal_newlines (c # cs) =
     (if c = CR then
        (case cs of
           [] \<Rightarrow> [LF]
         | d # ds \<Rightarrow> if d = LF then LF # universal_newlines ds else LF # universal_newlines cs)
      else c # universal_newlines cs)"

fun split_lines :: "string \<Rightarrow> string \<Rightarrow> string list" where
  "split_lines [] cur = (if cur = [] then [] else [cur])"
| "split_lines (c # cs) cur =
     (if c = LF then (cur @ [c]) # split_lines cs [] else split_lines cs (cur @ [c]))"

definition readlines :: "string \<Rightarrow> string list" where
  "readlines content = split_lines (universal_newlines content) []"

subsection \<open>The vocabulary aligner\<close>

text \<open>
  \<^verbatim>\<open>
  common_classes = []
  for v200_class in v200_classes:
      if v200_class in v148_classes:
          common_classes.append(v200_class)
  common_classes_mask_v200 = torch.tensor([[c in common_classes for c in v200_classes]])
  common_classes_mask_v148 = torch.tensor([[c in common_classes for c in v148_classes]])
  \<close>
  The loop is a recursion over the first vocabulary with the list built so far as an
  accumulator. Each mask is a tensor with one row, hence a list holding one list.
\<close>

fun common_loop :: "string list \<Rightarrow> string list \<Rightarrow> string list \<Rightarrow> string list" where
  "common_loop [] v148_classes acc = acc"
| "common_loop (v200_class # rest) v148_classes acc =
     common_loop rest v148_classes
       (if v200_class \<in> set v148_classes then acc @ [v200_class] else acc)"

definition common_classes :: "string list \<Rightarrow> string list \<Rightarrow> string list" where
  "common_classes v200_classes v148_classes = common_loop v200_classes v148_classes []"

definition common_classes_mask_v200 :: "string list \<Rightarrow> string list \<Rightarrow> bool list list" where
  "common_classes_mask_v200 v200_classes v148_classes =
     [map (\<lambda>c. c \<in> set (common_classes v200_classes v148_classes)) v200_classes]"

definition common_classes_mask_v148 :: "string list \<Rightarrow> string list \<Rightarrow> bool list list" where
  "common_classes_mask_v148 v200_classes v148_classes =
     [map (\<lambda>c. c \<in> set (common_classes v200_classes v148_classes)) v148_classes]"

text \<open>The sum of a boolean tensor: the number of its true entries.\<close>

definition popcount :: "bool list list \<Rightarrow> nat" where
  "popcount m = length (filter (\<lambda>b. b) (concat m))"

subsection \<open>Tensor operations used by the inference runner\<close>

text \<open>
  The exceptions that end a run: a boolean index whose shape differs from the shape of
  the indexed tensor (\<open>IndexError\<close>), a concatenation that torch rejects
  (\<open>RuntimeError\<close>), and any exception raised while the model processes an example
  (\<open>ExampleFailure\<close>).
\<close>

datatype error = IndexError | RuntimeError | ExampleFailure

text \<open>
  \<^verbatim>\<open>t[mask]\<close> for a boolean mask of rank two on a tensor of rank two: the shapes have
  to agree, and the result is the tensor of rank one holding the selected entries in
  row-major order.
\<close>

definition mask_index :: "'a list list \<Rightarrow> bool list list \<Rightarrow> error + 'a list" where
  "mask_index t common_classes_mask =
     (if map length t = map length common_classes_mask
      then Inr (map fst (filter snd (zip (concat t) (concat common_classes_mask))))
      else Inl IndexError)"

definition unsqueeze0 :: "'a list \<Rightarrow> 'a list list" where
  "unsqueeze0 v = [v]"

text \<open>
  \<^verbatim>\<open>torch.cat\<close> along dimension 0: an empty list of tensors is rejected, and so are
  tensors whose rows differ in length.
\<close>

definition torch_cat :: "'a list list list \<Rightarrow> error + 'a list list" where
  "torch_cat ts =
     (if ts = [] then Inl RuntimeError
      else (case concat ts of
              [] \<Rightarrow> Inr []
            | r # rs \<Rightarrow>
                if list_all (\<lambda>r'. length r' = length r) rs then Inr (r # rs)
                else Inl RuntimeError))"

subsection \<open>The inference runner\<close>

text \<open>
  \<^verbatim>\<open>
  for row in tqdm.tqdm(data_list):
      processable_data = model._process_batch(collate([row]), 0)
      model_output = model(processable_data)
      preds, labels = model._get_prediction_and_labels(
          processable_data, processable_data["labels"], model_output)
      if common_classes_mask is not None:
          preds = preds[common_classes_mask]
          labels = labels[common_classes_mask]
          preds_list.append(preds.unsqueeze(0))
          labels_list.append(labels.unsqueeze(0))
      else:
          preds_list.append(preds)
          labels_list.append(labels)
  test_preds = torch.cat(preds_list)
  test_labels = torch.cat(labels_list)
  \<close>
  The model and the collater belong to the external library: the three calls on one
  example are the parameter \<open>predict\<close>, which yields the prediction and label tensors
  of the batch holding that example, or fails. The list \<open>data_list\<close> is what
  \<^verbatim>\<open>torch.load\<close> read. The notebook's function prints the shapes and the scores of
  \<open>test_preds\<close> and \<open>test_labels\<close>; the embedding yields the two tensors themselves.
\<close>

fun eval_loop ::
  "('ex \<Rightarrow> error + ('p list list \<times> 'l list list)) \<Rightarrow> bool list list option \<Rightarrow> 'ex list \<Rightarrow>
   'p list list list \<Rightarrow> 'l list list list \<Rightarrow> error + ('p list list list \<times> 'l list list list)" where
  "eval_loop predict common_classes_mask [] preds_list labels_list = Inr (preds_list, labels_list)"
| "eval_loop predict common_classes_mask (row # rest) preds_list labels_list =
     (case predict row of
        Inl e \<Rightarrow> Inl e
      | Inr (preds, labels) \<Rightarrow>
          (case common_classes_mask of
             Some m \<Rightarrow>
               (case mask_index preds m of
                  Inl e \<Rightarrow> Inl e
                | Inr preds' \<Rightarrow>
                    (case mask_index labels m of
                       Inl e \<Rightarrow> Inl e
                     | Inr labels' \<Rightarrow>
                         eval_loop predict common_classes_mask rest
                           (preds_list @ [unsqueeze0 preds']) (labels_list @ [unsqueeze0 labels'])))
           | None \<Rightarrow>
               eval_loop predict common_classes_mask rest (preds_list @ [preds]) (labels_list @ [labels])))"

definition evaluate_model ::
  "('ex \<Rightarrow> error + ('p list list \<times> 'l list list)) \<Rightarrow> bool list list option \<Rightarrow> 'ex list \<Rightarrow>
   error + ('p list list \<times> 'l list list)" where
  "evaluate_model predict common_classes_mask data_list =
     (case eval_loop predict common_classes_mask data_list [] [] of
        Inl e \<Rightarrow> Inl e
      | Inr (preds_list, labels_list) \<Rightarrow>
          (case torch_cat preds_list of
             Inl e \<Rightarrow> Inl e
           | Inr test_preds \<Rightarrow>
               (case torch_cat labels_list of
                  Inl e \<Rightarrow> Inl e
                | Inr test_labels \<Rightarrow> Inr (test_preds, test_labels))))"

subsection \<open>Multi-label metrics\<close>

text \<open>
  Modelled from the spec: the metric computations (\<^verbatim>\<open>MultilabelF1Score\<close> as called by
  \<^verbatim>\<open>evaluate_model\<close>, and \<^verbatim>\<open>print_metrics\<close> of \<^verbatim>\<open>chebai.result.classification\<close>) are
  not among the sources. The definitions follow section 4.3 of the specification: the
  per-class confusion counts, precision, recall and F1 with the value 0 where a
  denominator vanishes, macro-F1 as the unweighted mean of the per-class F1, micro-F1 from
  the counts summed over all classes, and the list of classes with F1 exactly 0 among the
  classes with a positive label. The specification leaves the decision threshold open;
  it is the parameter \<open>thr\<close>, and a probability above it counts as a predicted positive.
  Scores are exact rationals.
\<close>

definition column :: "'a list list \<Rightarrow> nat \<Rightarrow> 'a list" where
  "column t c = map (\<lambda>row. row ! c) t"

definition predicted_positive :: "rat \<Rightarrow> rat \<Rightarrow> bool" where
  "predicted_positive thr p = (thr < p)"

definition true_positives :: "rat \<Rightarrow> rat list list \<Rightarrow> int list list \<Rightarrow> nat \<Rightarrow> nat" where
  "true_positives thr P L c =
     length (filter (\<lambda>(p, l). predicted_positive thr p \<and> l = 1) (zip (column P c) (column L c)))"

definition false_positives :: "rat \<Rightarrow> rat list list \<Rightarrow> int list list \<Rightarrow> nat \<Rightarrow> nat" where
  "false_positives thr P L c =
     length (filter (\<lambda>(p, l). predicted_positive thr p \<and> l \<noteq> 1) (zip (column P c) (column L c)))"

definition false_negatives :: "rat \<Rightarrow> rat list list \<Rightarrow> int list list \<Rightarrow> nat \<Rightarrow> nat" where
  "false_negatives thr P L c =
     length (filter (\<lambda>(p, l). \<not> predicted_positive thr p \<and> l = 1) (zip (column P c) (column L c)))"

definition precision :: "nat \<Rightarrow> nat \<Rightarrow> rat" where
  "precision tp fp = (if tp + fp = 0 then 0 else of_nat tp / of_nat (tp + fp))"

definition recall :: "nat \<Rightarrow> nat \<Rightarrow> rat" where
  "recall tp fn = (if tp + fn = 0 then 0 else of_nat tp / of_nat (tp + fn))"

definition f1_score :: "rat \<Rightarrow> rat \<Rightarrow> rat" where
  "f1_score p r = (if p = 0 \<and> r = 0 then 0 else 2 * p * r / (p + r))"

definition class_precision :: "rat \<Rightarrow> rat list list \<Rightarrow> int list list \<Rightarrow> nat \<Rightarrow> rat" where
  "class_precision thr P L c = precision (true_positives thr P L c) (false_positives thr P L c)"

definition class_recall :: "rat \<Rightarrow> rat list list \<Rightarrow> int list list \<Rightarrow> nat \<Rightarrow> rat" where
  "class_recall thr P L c = recall (true_positives thr P L c) (false_negatives thr P L c)"

definition class_f1 :: "rat \<Rightarrow> rat list list \<Rightarrow> int list list \<Rightarrow> nat \<Rightarrow> rat" where
  "class_f1 thr P L c = f1_score (class_precision thr P L c) (class_recall thr P L c)"

definition macro_f1 :: "rat \<Rightarrow> nat \<Rightarrow> rat list list \<Rightarrow> int list list \<Rightarrow> rat" where
  "macro_f1 thr C P L = (\<Sum>c\<leftarrow>[0..<C]. class_f1 thr P L c) / of_nat C"

definition micro_f1 :: "rat \<Rightarrow> nat \<Rightarrow> rat list list \<Rightarrow> int list list \<Rightarrow> rat" where
  "micro_f1 thr C P L =
     (let tp = (\<Sum>c\<leftarrow>[0..<C]. true_positives thr P L c);
          fp = (\<Sum>c\<leftarrow>[0..<C]. false_positives thr P L c);
          fn = (\<Sum>c\<leftarrow>[0..<C]. false_negatives thr P L c)
      in f1_score (precision tp fp) (recall tp fn))"

text \<open>
  The scores \<^verbatim>\<open>evaluate_model\<close> prints for the accumulated tensors:
  \<^verbatim>\<open>
  f1_macro = MultilabelF1Score(test_preds.shape[1], average="macro")
  f1_micro = MultilabelF1Score(test_preds.shape[1], average="micro")
  f1_macro(test_preds, test_labels), f1_micro(test_preds, test_labels)
  \<close>
  The accumulated tensors have at least one row, whose length is \<^verbatim>\<open>shape[1]\<close>.
\<close>

definition num_columns :: "'a list list \<Rightarrow> nat" where
  "num_columns t = (case t of [] \<Rightarrow> 0 | r # rs \<Rightarrow> length r)"

definition evaluate_model_scores :: "rat \<Rightarrow> rat list list \<Rightarrow> int list list \<Rightarrow> rat \<times> rat" where
  "evaluate_model_scores thr test_preds test_labels =
     (macro_f1 thr (num_columns test_preds) test_preds test_labels,
      micro_f1 thr (num_columns test_preds) test_preds test_labels)"

definition positive_labels :: "int list list \<Rightarrow> nat \<Rightarrow> nat" where
  "positive_labels L c = length (filter (\<lambda>l. l = 1) (column L c))"

definition zero_f1_classes :: "rat \<Rightarrow> nat \<Rightarrow> rat list list \<Rightarrow> int list list \<Rightarrow> nat list" where
  "zero_f1_classes thr C P L =
     filter (\<lambda>c. class_f1 thr P L c = 0 \<and> positive_labels L c \<noteq> 0) [0..<C]"

subsection \<open>The workflow step that verifies the constants\<close>







section \<open>Properties of the vocabulary aligner\<close>

lemma common_loop_filter:
  "common_loop xs ys acc = acc @ filter (\<lambda>x. x \<in> set ys) xs"
  by (induction xs arbitrary: acc) simp_all

lemma common_classes_filter:
  "common_classes xs ys = filter (\<lambda>x. x \<in> set ys) xs"
  by (simp add: common_classes_def common_loop_filter)

lemma set_common_classes:
  "set (common_classes xs ys) = set xs \<inter> set ys"
  by (auto simp: common_classes_filter)

text \<open>
  Claim C1. For all vocabularies \<open>A\<close> and \<open>B\<close> the aligner yields the elements of \<open>A\<close>
  that occur in \<open>B\<close>, in the order of \<open>A\<close>; the mask of \<open>A\<close> holds at position \<open>i\<close>
  whether \<open>A ! i\<close> is in the common list, and likewise the mask of \<open>B\<close>. The masks are
  tensors with a single row, which is the row the positions refer to.
\<close>

theorem aligner_contract:
  "common_classes A B = filter (\<lambda>x. x \<in> set B) A
   \<and> common_classes_mask_v200 A B = [map (\<lambda>c. c \<in> set (common_classes A B)) A]
   \<and> common_classes_mask_v148 A B = [map (\<lambda>c. c \<in> set (common_classes A B)) B]
   \<and> length (common_classes_mask_v200 A B ! 0) = length A
   \<and> length (common_classes_mask_v148 A B ! 0) = length B
   \<and> (\<forall>i < length A. common_classes_mask_v200 A B ! 0 ! i = (A ! i \<in> set (common_classes A B)))
   \<and> (\<forall>i < length B. common_classes_mask_v148 A B ! 0 ! i = (B ! i \<in> set (common_classes A B)))"
  by (simp add: common_classes_filter common_classes_mask_v200_def
      common_classes_mask_v148_def)

theorem aligner_contract_witness:
  "common_classes [''a'', ''b'', ''c''] [''c'', ''x'', ''a''] = [''a'', ''c'']
   \<and> common_classes_mask_v200 [''a'', ''b'', ''c''] [''c'', ''x'', ''a''] = [[True, False, True]]
   \<and> common_classes_mask_v148 [''a'', ''b'', ''c''] [''c'', ''x'', ''a''] = [[True, False, True]]
   \<and> common_classes_mask_v200 [''a'', ''b'', ''c''] [''c'', ''x'', ''a''] ! 0 ! 1
       = (''b'' \<in> set (common_classes [''a'', ''b'', ''c''] [''c'', ''x'', ''a'']))"
  using aligner_contract [of "[''a'', ''b'', ''c'']" "[''c'', ''x'', ''a'']"]
  by simp

lemma popcount_single: "popcount [map P xs] = length (filter P xs)"
  by (simp add: popcount_def filter_map comp_def)

lemma popcount_mask_v200: "popcount (common_classes_mask_v200 A B) = length (common_classes A B)"
proof -
  have "filter (\<lambda>c. c \<in> set A \<and> c \<in> set B) A = filter (\<lambda>c. c \<in> set B) A"
    by (rule filter_cong) auto
  then show ?thesis
    by (simp add: common_classes_mask_v200_def popcount_single
        set_common_classes common_classes_filter)
qed

lemma popcount_mask_v148:
  assumes "distinct A" "distinct B"
  shows "popcount (common_classes_mask_v148 A B) = length (common_classes A B)"
proof -
  have "popcount (common_classes_mask_v148 A B) = length (filter (\<lambda>c. c \<in> set A \<inter> set B) B)"
    by (simp add: common_classes_mask_v148_def popcount_single
        set_common_classes)
  also have "\<dots> = card ({c. c \<in> set A \<inter> set B} \<inter> set B)"
    using assms(2) by (rule distinct_length_filter)
  also have "{c. c \<in> set A \<inter> set B} \<inter> set B = {c. c \<in> set B} \<inter> set A"
    by auto
  also have "card \<dots> = length (filter (\<lambda>c. c \<in> set B) A)"
    using assms(1) by (rule distinct_length_filter [symmetric])
  finally show ?thesis
    by (simp add: common_classes_filter)
qed

text \<open>
  Claim C2, as amended. The common list is contained in both vocabularies and the mask
  of \<open>A\<close> has as many true entries as the common list has elements; the mask of \<open>B\<close>
  has that many true entries too when neither vocabulary lists an identifier twice. In
  particular, for such vocabularies of sizes 854 and 709 with 701 common identifiers both
  masks have 701 true entries.
\<close>

theorem aligner_popcounts:
  "set (common_classes A B) \<subseteq> set A \<and> set (common_classes A B) \<subseteq> set B
   \<and> popcount (common_classes_mask_v200 A B) = length (common_classes A B)
   \<and> (distinct A \<and> distinct B \<longrightarrow>
        popcount (common_classes_mask_v148 A B) = length (common_classes A B))
   \<and> (distinct A \<and> distinct B \<and> length A = 854 \<and> length B = 709
        \<and> length (common_classes A B) = 701 \<longrightarrow>
        popcount (common_classes_mask_v200 A B) = 701
        \<and> popcount (common_classes_mask_v148 A B) = 701)"
  by (simp add: set_common_classes popcount_mask_v200 popcount_mask_v148)

text \<open>
  As stated for all pairs the claim fails: an identifier listed twice in \<open>A\<close> is
  counted twice in the common list and once in the mask of \<open>B\<close>.
\<close>

theorem aligner_popcounts_counterexample:
  "\<not> (set (common_classes [''a'', ''a''] [''a'']) \<subseteq> set [''a'', ''a'']
      \<and> set (common_classes [''a'', ''a''] [''a'']) \<subseteq> set [''a'']
      \<and> popcount (common_classes_mask_v200 [''a'', ''a''] [''a''])
          = length (common_classes [''a'', ''a''] [''a''])
      \<and> length (common_classes [''a'', ''a''] [''a''])
          = popcount (common_classes_mask_v148 [''a'', ''a''] [''a'']))"
  by (simp add: common_classes_def common_classes_mask_v148_def popcount_def)

text \<open>
  The scenario at full size: the identifiers are the strings of \<open>n\<close> letters, for
  \<open>n\<close> below 854 in one vocabulary and from 153 up to 861 in the other.
\<close>

lemma unary_inj: "inj (\<lambda>n. replicate n (CHR ''x''))"
  by (rule injI) (metis length_replicate)

lemma common_classes_map_inj:
  assumes "inj f"
  shows "length (common_classes (map f xs) (map f ys)) = length (filter (\<lambda>n. n \<in> set ys) xs)"
  using assms by (simp add: common_classes_filter filter_map comp_def inj_image_mem_iff)

lemma scenario_common:
  "length (filter (\<lambda>n. n \<in> set [153..<862]) [0..<854]) = 701"
proof -
  have "length (filter (\<lambda>n. n \<in> set [153..<862]) [0..<854])
          = card ({n. n \<in> set [153..<862]} \<inter> set [0..<854])"
    by (rule distinct_length_filter) (simp del: upt_rec_numeral)
  also have "{n. n \<in> set [153..<862]} \<inter> set [0..<854] = {153..<854::nat}"
    by (auto simp del: upt_rec_numeral)
  finally show ?thesis by (simp del: upt_rec_numeral)
qed

theorem aligner_popcounts_witness:
  "distinct (map (\<lambda>n. replicate n (CHR ''x'')) [0..<854])
   \<and> distinct (map (\<lambda>n. replicate n (CHR ''x'')) [153..<862])
   \<and> length (map (\<lambda>n. replicate n (CHR ''x'')) [0..<854]) = 854
   \<and> length (map (\<lambda>n. replicate n (CHR ''x'')) [153..<862]) = 709
   \<and> length (common_classes (map (\<lambda>n. replicate n (CHR ''x'')) [0..<854])
         (map (\<lambda>n. replicate n (CHR ''x'')) [153..<862])) = 701
   \<and> popcount (common_classes_mask_v200 (map (\<lambda>n. replicate n (CHR ''x'')) [0..<854])
         (map (\<lambda>n. replicate n (CHR ''x'')) [153..<862])) = 701
   \<and> popcount (common_classes_mask_v148 (map (\<lambda>n. replicate n (CHR ''x'')) [0..<854])
         (map (\<lambda>n. replicate n (CHR ''x'')) [153..<862])) = 701"
proof -
  let ?f = "\<lambda>n. replicate n (CHR ''x'')"
  have inj: "inj_on ?f S" for S
    using unary_inj by (rule inj_on_subset) simp
  have dA: "distinct (map ?f [0..<854])" and dB: "distinct (map ?f [153..<862])"
    by (simp_all add: distinct_map inj del: upt_rec_numeral)
  have lA: "length (map ?f [0..<854]) = 854" and lB: "length (map ?f [153..<862]) = 709"
    by (simp_all del: upt_rec_numeral)
  have lc: "length (common_classes (map ?f [0..<854]) (map ?f [153..<862])) = 701"
    using common_classes_map_inj [OF unary_inj, of "[0..<854]" "[153..<862]"] scenario_common
    by (simp only:)
  show ?thesis
    using aligner_popcounts [of "map ?f [0..<854]" "map ?f [153..<862]"] dA dB lA lB lc
    by blast
qed

text \<open>
  Claim C9. The lines are compared as read, with their line feeds. One file lists
  \<open>CHEBI:2\<close> as its last line without a final line feed, the other lists it followed
  by a line feed: the identifier is not in the common list and its entries in both masks
  are false.
\<close>

theorem raw_lines_not_aligned:
  "readlines (''CHEBI:1'' @ [LF] @ ''CHEBI:2'') = [''CHEBI:1'' @ [LF], ''CHEBI:2'']
   \<and> readlines (''CHEBI:2'' @ [LF]) = [''CHEBI:2'' @ [LF]]
   \<and> common_classes (readlines (''CHEBI:1'' @ [LF] @ ''CHEBI:2'')) (readlines (''CHEBI:2'' @ [LF])) = []
   \<and> common_classes_mask_v200 (readlines (''CHEBI:1'' @ [LF] @ ''CHEBI:2'')) (readlines (''CHEBI:2'' @ [LF]))
       = [[False, False]]
   \<and> common_classes_mask_v148 (readlines (''CHEBI:1'' @ [LF] @ ''CHEBI:2'')) (readlines (''CHEBI:2'' @ [LF]))
       = [[False]]"
  by (simp add: readlines_def LF_def CR_def common_classes_def common_classes_mask_v200_def
      common_classes_mask_v148_def)

section \<open>Properties of the inference runner\<close>

lemma torch_cat_rows:
  assumes "ts \<noteq> []" and "\<forall>r \<in> set (concat ts). length r = k"
  shows "torch_cat ts = Inr (concat ts)"
proof (cases "concat ts")
  case Nil
  show ?thesis
    unfolding torch_cat_def Nil using assms(1) by simp
next
  case (Cons r rs)
  have "\<forall>r' \<in> set rs. length r' = length r"
    using assms(2) unfolding Cons by simp
  then show ?thesis
    unfolding torch_cat_def Cons using assms(1) by (simp add: list_all_iff)
qed

lemma torch_cat_Nil: "torch_cat [] = Inl RuntimeError"
  by (simp add: torch_cat_def)

lemma mask_index_single:
  "length p = length r \<Longrightarrow> mask_index [p] [r] = Inr (map fst (filter snd (zip p r)))"
  by (simp add: mask_index_def)

lemma length_filter_snd_zip:
  "length p = length r \<Longrightarrow> length (filter snd (zip p r)) = length (filter (\<lambda>b. b) r)"
  by (induction p r rule: list_induct2) simp_all

lemma eval_loop_None:
  assumes "\<forall>row \<in> set xs. \<exists>p l. predict row = Inr ([p], [l])"
  shows "eval_loop predict None xs pl ll =
           Inr (pl @ map (\<lambda>row. [hd (fst (projr (predict row)))]) xs,
                ll @ map (\<lambda>row. [hd (snd (projr (predict row)))]) xs)"
  using assms
proof (induction xs arbitrary: pl ll)
  case Nil
  then show ?case by simp
next
  case (Cons row rest)
  from Cons.prems obtain p l where "predict row = Inr ([p], [l])"
    by auto
  moreover have "\<forall>row \<in> set rest. \<exists>p l. predict row = Inr ([p], [l])"
    using Cons.prems by simp
  ultimately show ?case
    by (simp add: Cons.IH)
qed

lemma eval_loop_Some:
  assumes "\<forall>row \<in> set xs. \<exists>p l. predict row = Inr ([p], [l]) \<and> length p = length r \<and> length l = length r"
  shows "eval_loop predict (Some [r]) xs pl ll =
           Inr (pl @ map (\<lambda>row. [map fst (filter snd (zip (hd (fst (projr (predict row)))) r))]) xs,
                ll @ map (\<lambda>row. [map fst (filter snd (zip (hd (snd (projr (predict row)))) r))]) xs)"
  using assms
proof (induction xs arbitrary: pl ll)
  case Nil
  then show ?case by simp
next
  case (Cons row rest)
  from Cons.prems obtain p l where "predict row = Inr ([p], [l])"
    and "length p = length r" and "length l = length r"
    by auto
  moreover have "\<forall>row \<in> set rest. \<exists>p l. predict row = Inr ([p], [l]) \<and> length p = length r \<and> length l = length r"
    using Cons.prems by simp
  ultimately show ?case
    by (simp add: Cons.IH mask_index_single unsqueeze0_def)
qed

lemma evaluate_model_None:
  assumes ne: "data_list \<noteq> []"
    and ok: "\<forall>row \<in> set data_list. \<exists>p l. predict row = Inr ([p], [l]) \<and> length p = C \<and> length l = C"
  shows "evaluate_model predict None data_list =
           Inr (map (\<lambda>row. hd (fst (projr (predict row)))) data_list,
                map (\<lambda>row. hd (snd (projr (predict row)))) data_list)"
proof -
  have 1: "\<forall>row \<in> set data_list. \<exists>p l. predict row = Inr ([p], [l])"
    using ok by blast
  have 2: "torch_cat (map (\<lambda>row. [hd (fst (projr (predict row)))]) data_list)
             = Inr (concat (map (\<lambda>row. [hd (fst (projr (predict row)))]) data_list))"
    by (rule torch_cat_rows [where k = C]) (use ne ok in fastforce)+
  have 3: "torch_cat (map (\<lambda>row. [hd (snd (projr (predict row)))]) data_list)
             = Inr (concat (map (\<lambda>row. [hd (snd (projr (predict row)))]) data_list))"
    by (rule torch_cat_rows [where k = C]) (use ne ok in fastforce)+
  show ?thesis
    by (simp add: evaluate_model_def eval_loop_None [OF 1] 2 3)
qed

lemma evaluate_model_Some:
  assumes ne: "data_list \<noteq> []"
    and ok: "\<forall>row \<in> set data_list. \<exists>p l. predict row = Inr ([p], [l]) \<and> length p = C \<and> length l = C"
    and r: "length r = C"
  shows "evaluate_model predict (Some [r]) data_list =
           Inr (map (\<lambda>row. map fst (filter snd (zip (hd (fst (projr (predict row)))) r))) data_list,
                map (\<lambda>row. map fst (filter snd (zip (hd (snd (projr (predict row)))) r))) data_list)"
proof -
  have 1: "\<forall>row \<in> set data_list. \<exists>p l. predict row = Inr ([p], [l]) \<and> length p = length r \<and> length l = length r"
    using ok r by simp
  have 2: "torch_cat (map (\<lambda>row. [map fst (filter snd (zip (hd (fst (projr (predict row)))) r))]) data_list)
             = Inr (concat (map (\<lambda>row. [map fst (filter snd (zip (hd (fst (projr (predict row)))) r))]) data_list))"
    by (rule torch_cat_rows [where k = "popcount [r]"])
      (use ne 1 in \<open>fastforce simp: popcount_def length_filter_snd_zip\<close>)+
  have 3: "torch_cat (map (\<lambda>row. [map fst (filter snd (zip (hd (snd (projr (predict row)))) r))]) data_list)
             = Inr (concat (map (\<lambda>row. [map fst (filter snd (zip (hd (snd (projr (predict row)))) r))]) data_list))"
    by (rule torch_cat_rows [where k = "popcount [r]"])
      (use ne 1 in \<open>fastforce simp: popcount_def length_filter_snd_zip\<close>)+
  show ?thesis
    by (simp add: evaluate_model_def eval_loop_Some [OF 1] 2 3)
qed

text \<open>
  Claim C3, as amended. For every non-empty example list whose examples the model turns
  into a prediction tensor and a label tensor of one row and \<open>C\<close> columns each, the
  two tensors accumulated by \<open>evaluate_model\<close> have as many rows as the list has
  examples, and row \<open>i\<close> comes from example \<open>i\<close>. Without a mask the rows are the
  model's rows, with \<open>C\<close> columns; with a mask of one row and \<open>C\<close> entries they are
  the model's rows filtered to the true positions of the mask, and the number of columns
  is the number of true entries of the mask.
\<close>

theorem evaluate_model_accumulation:
  assumes ne: "data_list \<noteq> []"
    and ok: "\<forall>row \<in> set data_list. \<exists>p l. predict row = Inr ([p], [l]) \<and> length p = C \<and> length l = C"
    and r: "length r = C"
  shows "(\<exists>test_preds test_labels.
            evaluate_model predict None data_list = Inr (test_preds, test_labels)
            \<and> length test_preds = length data_list \<and> length test_labels = length data_list
            \<and> (\<forall>i < length data_list.
                  predict (data_list ! i) = Inr ([test_preds ! i], [test_labels ! i])
                  \<and> length (test_preds ! i) = C \<and> length (test_labels ! i) = C))
       \<and> (\<exists>test_preds test_labels.
            evaluate_model predict (Some [r]) data_list = Inr (test_preds, test_labels)
            \<and> length test_preds = length data_list \<and> length test_labels = length data_list
            \<and> (\<forall>i < length data_list. \<exists>p l.
                  predict (data_list ! i) = Inr ([p], [l])
                  \<and> test_preds ! i = map fst (filter snd (zip p r))
                  \<and> test_labels ! i = map fst (filter snd (zip l r))
                  \<and> length (test_preds ! i) = popcount [r]
                  \<and> length (test_labels ! i) = popcount [r]))"
proof (intro conjI)
  have row: "\<exists>p l. predict (data_list ! i) = Inr ([p], [l]) \<and> length p = C \<and> length l = C"
    if "i < length data_list" for i
    using ok that by simp
  show "\<exists>test_preds test_labels.
            evaluate_model predict None data_list = Inr (test_preds, test_labels)
            \<and> length test_preds = length data_list \<and> length test_labels = length data_list
            \<and> (\<forall>i < length data_list.
                  predict (data_list ! i) = Inr ([test_preds ! i], [test_labels ! i])
                  \<and> length (test_preds ! i) = C \<and> length (test_labels ! i) = C)"
    unfolding evaluate_model_None [OF ne ok]
    using row by fastforce
  show "\<exists>test_preds test_labels.
            evaluate_model predict (Some [r]) data_list = Inr (test_preds, test_labels)
            \<and> length test_preds = length data_list \<and> length test_labels = length data_list
            \<and> (\<forall>i < length data_list. \<exists>p l.
                  predict (data_list ! i) = Inr ([p], [l])
                  \<and> test_preds ! i = map fst (filter snd (zip p r))
                  \<and> test_labels ! i = map fst (filter snd (zip l r))
                  \<and> length (test_preds ! i) = popcount [r]
                  \<and> length (test_labels ! i) = popcount [r])"
    unfolding evaluate_model_Some [OF ne ok r]
    using row r by (fastforce simp: popcount_def length_filter_snd_zip)
qed

theorem evaluate_model_accumulation_witness:
  "evaluate_model Inr None
       [([[1/2, 1/4, 3/4 :: rat]], [[1, 0, 1 :: int]]), ([[0, 1, 1/3]], [[0, 1, 0]])]
     = Inr ([[1/2, 1/4, 3/4], [0, 1, 1/3]], [[1, 0, 1], [0, 1, 0]])
   \<and> evaluate_model Inr (Some [[True, False, True]])
       [([[1/2, 1/4, 3/4 :: rat]], [[1, 0, 1 :: int]]), ([[0, 1, 1/3]], [[0, 1, 0]])]
     = Inr ([[1/2, 3/4], [0, 1/3]], [[1, 1], [0, 0]])
   \<and> popcount [[True, False, True]] = 2"
proof -
  let ?data = "[([[1/2, 1/4, 3/4 :: rat]], [[1, 0, 1 :: int]]), ([[0, 1, 1/3]], [[0, 1, 0]])]"
  have h1: "?data \<noteq> []"
    by simp
  have h2: "\<forall>row \<in> set ?data. \<exists>p l. Inr row = (Inr ([p], [l]) :: error + _) \<and> length p = 3 \<and> length l = 3"
    by simp
  have h3: "length [True, False, True] = 3"
    by simp
  show ?thesis
    using evaluate_model_accumulation [OF h1 h2 h3]
    by (simp add: evaluate_model_def torch_cat_def mask_index_def unsqueeze0_def popcount_def)
qed

text \<open>
  For the empty example list nothing is returned: the concatenation of an empty list of
  tensors raises. The model used here is the one whose examples are their own prediction
  and label tensors.
\<close>

theorem evaluate_model_accumulation_counterexample:
  "evaluate_model Inr None ([] :: (rat list list \<times> int list list) list) = Inl RuntimeError
   \<and> evaluate_model Inr None ([] :: (rat list list \<times> int list list) list) \<noteq> Inr ([], [])"
  by (simp add: evaluate_model_def torch_cat_def)

text \<open>
  Claim C10. For the empty example list the concatenation step raises instead of
  yielding empty tensors; hence a run that yields tensors has processed at least one
  example.
\<close>

theorem evaluate_model_empty:
  "evaluate_model predict common_classes_mask [] = Inl RuntimeError
   \<and> (evaluate_model predict common_classes_mask data_list = Inr result \<longrightarrow> data_list \<noteq> [])"
  by (auto simp: evaluate_model_def torch_cat_Nil)

theorem evaluate_model_empty_witness:
  "evaluate_model Inr None ([] :: (rat list list \<times> int list list) list) = Inl RuntimeError
   \<and> evaluate_model Inr None [([[1/2, 1/4 :: rat]], [[1, 0 :: int]])] = Inr ([[1/2, 1/4]], [[1, 0]])
   \<and> [([[1/2, 1/4 :: rat]], [[1, 0 :: int]])] \<noteq> []"
  using evaluate_model_empty [of Inr None "[([[1/2, 1/4 :: rat]], [[1, 0 :: int]])]" "([[1/2, 1/4]], [[1, 0]])"]
  by (simp add: evaluate_model_def torch_cat_def)

subsection \<open>Masking\<close>

lemma mask_index_Inr:
  assumes "mask_index t m = Inr v"
  shows "map length t = map length m" and "v = map fst (filter snd (zip (concat t) (concat m)))"
  using assms by (auto simp: mask_index_def split: if_splits)

lemma mask_index_length:
  assumes "mask_index t m = Inr v"
  shows "length v = popcount m"
proof -
  have "length (concat t) = length (concat m)"
    using mask_index_Inr(1) [OF assms] by (simp add: length_concat)
  then show ?thesis
    by (simp add: mask_index_Inr(2) [OF assms] popcount_def length_filter_snd_zip)
qed

lemma select_all_true:
  "length v = length r \<Longrightarrow> \<forall>b \<in> set r. b \<Longrightarrow> map fst (filter snd (zip v r)) = v"
  by (induction v r rule: list_induct2) auto

lemma filter_full_length:
  assumes "length (filter P xs) = length xs"
  shows "\<forall>x \<in> set xs. P x"
proof (rule ccontr)
  assume "\<not> (\<forall>x \<in> set xs. P x)"
  then obtain x where "x \<in> set xs" and "\<not> P x"
    by blast
  then have "length (filter P xs) < length xs"
    by (rule length_filter_less)
  with assms show False
    by simp
qed

lemma mask_self:
  "mask_index m m = Inr (filter (\<lambda>b. b) (concat m))"
proof -
  have "map fst (filter snd (zip xs xs)) = filter (\<lambda>b. b) xs" for xs :: "bool list"
    by (induction xs) simp_all
  then show ?thesis
    by (simp add: mask_index_def)
qed

text \<open>
  Claim C4, as amended. Let \<open>v\<close> be a tensor filtered by the mask \<open>m\<close>. Filtering
  \<open>v\<close> by the mask that is \<open>m\<close> filtered by itself (all of whose entries are true)
  leaves \<open>v\<close> unchanged. Filtering \<open>v\<close> by \<open>m\<close> itself leaves it unchanged when
  \<open>m\<close> is a single row without a false entry, and raises the shape error as soon as
  \<open>m\<close> has a false entry.
\<close>

theorem masking_idempotent:
  assumes "mask_index t m = Inr v"
  shows "(\<exists>mm. mask_index m m = Inr mm
            \<and> mask_index (unsqueeze0 v) (unsqueeze0 mm) = Inr v)
       \<and> (length m = 1 \<and> popcount m = length (concat m) \<longrightarrow> mask_index (unsqueeze0 v) m = Inr v)
       \<and> (popcount m < length (concat m) \<longrightarrow> mask_index (unsqueeze0 v) m = Inl IndexError)"
proof (intro conjI impI)
  have len: "length v = popcount m"
    using assms by (rule mask_index_length)
  have "mask_index [v] [filter (\<lambda>b. b) (concat m)] = Inr v"
    using len by (simp add: mask_index_single popcount_def select_all_true)
  then show "\<exists>mm. mask_index m m = Inr mm \<and> mask_index (unsqueeze0 v) (unsqueeze0 mm) = Inr v"
    by (simp add: mask_self unsqueeze0_def)
  show "mask_index (unsqueeze0 v) m = Inr v"
    if "length m = 1 \<and> popcount m = length (concat m)"
  proof -
    from that obtain r where m: "m = [r]"
      by (cases m) auto
    have "length (filter (\<lambda>b. b) r) = length r"
      using that by (simp add: m popcount_def)
    then have "\<forall>b \<in> set r. b"
      by (rule filter_full_length)
    moreover have "length v = length r"
      using len that by (simp add: m)
    ultimately show ?thesis
      by (simp add: m unsqueeze0_def mask_index_single select_all_true)
  qed
  show "mask_index (unsqueeze0 v) m = Inl IndexError"
    if "popcount m < length (concat m)"
  proof -
    have "[length v] \<noteq> map length m"
    proof
      assume "[length v] = map length m"
      then obtain r where m: "m = [r]" and r: "length r = length v"
        by (cases m) auto
      have "length (concat m) = length r"
        by (simp add: m)
      with that len r show False
        by linarith
    qed
    then show ?thesis
      by (simp add: mask_index_def unsqueeze0_def)
  qed
qed

theorem masking_idempotent_witness:
  "mask_index [[9/10, 1/10, 4/5 :: rat]] [[True, False, True]] = Inr [9/10, 4/5]
   \<and> mask_index [[True, False, True]] [[True, False, True]] = Inr [True, True]
   \<and> mask_index (unsqueeze0 [9/10, 4/5 :: rat]) (unsqueeze0 [True, True]) = Inr [9/10, 4/5]
   \<and> popcount [[True, False, True]] < length (concat [[True, False, True]])
   \<and> mask_index (unsqueeze0 [9/10, 4/5 :: rat]) [[True, False, True]] = Inl IndexError"
proof -
  have h: "mask_index [[9/10, 1/10, 4/5 :: rat]] [[True, False, True]] = Inr [9/10, 4/5]"
    by (simp add: mask_index_def)
  have s: "mask_index [[True, False, True]] [[True, False, True]] = Inr [True, True]"
    by (simp add: mask_index_def)
  have p: "popcount [[True, False, True]] < length (concat [[True, False, True]])"
    by (simp add: popcount_def)
  note T = masking_idempotent [OF h]
  have "\<exists>mm. mask_index [[True, False, True]] [[True, False, True]] = Inr mm
          \<and> mask_index (unsqueeze0 [9/10, 4/5 :: rat]) (unsqueeze0 mm) = Inr [9/10, 4/5]"
    using T by (rule conjunct1)
  then have a: "mask_index (unsqueeze0 [9/10, 4/5 :: rat]) (unsqueeze0 [True, True]) = Inr [9/10, 4/5]"
    unfolding s by blast
  have e: "popcount [[True, False, True]] < length (concat [[True, False, True]]) \<longrightarrow>
          mask_index (unsqueeze0 [9/10, 4/5 :: rat]) [[True, False, True]] = Inl IndexError"
    using T by (rule conjunct2 [THEN conjunct2])
  from e p have "mask_index (unsqueeze0 [9/10, 4/5 :: rat]) [[True, False, True]] = Inl IndexError"
    by (rule mp)
  with h s a p show ?thesis
    by (intro conjI)
qed

text \<open>
  Applying a mask with a false entry a second time is not a no-op: the filtered vector is
  shorter than the mask.
\<close>

theorem masking_idempotent_counterexample:
  "mask_index [[9/10, 1/10 :: rat]] [[True, False]] = Inr [9/10]
   \<and> mask_index (unsqueeze0 [9/10 :: rat]) [[True, False]] = Inl IndexError
   \<and> mask_index (unsqueeze0 [9/10 :: rat]) [[True, False]] \<noteq> Inr [9/10]"
  by (simp add: mask_index_def unsqueeze0_def)

section \<open>Properties of the metrics\<close>

lemma precision_zero_iff: "precision tp fp = 0 \<longleftrightarrow> tp = 0"
  by (auto simp: precision_def)

lemma recall_zero_iff: "recall tp fn = 0 \<longleftrightarrow> tp = 0"
  by (auto simp: recall_def)

lemma f1_harmonic:
  "f1_score (precision tp fp) (recall tp fn) =
     (if precision tp fp = 0 \<and> recall tp fn = 0 then 0
      else 2 / (1 / precision tp fp + 1 / recall tp fn))"
proof (cases "tp = 0")
  case True
  then show ?thesis
    by (simp add: f1_score_def precision_def recall_def)
next
  case False
  then have p: "precision tp fp \<noteq> 0" and r: "recall tp fn \<noteq> 0"
    by (simp_all add: precision_zero_iff recall_zero_iff)
  then show ?thesis
    by (simp add: f1_score_def field_simps)
qed

text \<open>
  Claim C5. For every class, precision is the share of true positives among the predicted
  positives and 0 when nothing is predicted positive, recall is the share of true
  positives among the actual positives and 0 when there is none, and F1 is the harmonic
  mean of the two and 0 when both are 0. For a single class with two true positives, one
  false positive and no false negative the three scores are \<open>2/3\<close>, \<open>1\<close> and
  \<open>4/5\<close>.
\<close>

theorem per_class_metrics:
  "class_precision thr P L c =
     (if true_positives thr P L c + false_positives thr P L c = 0 then 0
      else of_nat (true_positives thr P L c)
           / of_nat (true_positives thr P L c + false_positives thr P L c))
   \<and> class_recall thr P L c =
     (if true_positives thr P L c + false_negatives thr P L c = 0 then 0
      else of_nat (true_positives thr P L c)
           / of_nat (true_positives thr P L c + false_negatives thr P L c))
   \<and> class_f1 thr P L c =
     (if class_precision thr P L c = 0 \<and> class_recall thr P L c = 0 then 0
      else 2 / (1 / class_precision thr P L c + 1 / class_recall thr P L c))
   \<and> true_positives (1/2) [[9/10], [4/5], [7/10], [1/10]] [[1], [1], [0], [0]] 0 = 2
   \<and> false_positives (1/2) [[9/10], [4/5], [7/10], [1/10]] [[1], [1], [0], [0]] 0 = 1
   \<and> false_negatives (1/2) [[9/10], [4/5], [7/10], [1/10]] [[1], [1], [0], [0]] 0 = 0
   \<and> class_precision (1/2) [[9/10], [4/5], [7/10], [1/10]] [[1], [1], [0], [0]] 0 = 2/3
   \<and> class_recall (1/2) [[9/10], [4/5], [7/10], [1/10]] [[1], [1], [0], [0]] 0 = 1
   \<and> class_f1 (1/2) [[9/10], [4/5], [7/10], [1/10]] [[1], [1], [0], [0]] 0 = 4/5"
proof -
  have tp: "true_positives (1/2) [[9/10], [4/5], [7/10], [1/10]] [[1], [1], [0], [0]] 0 = 2"
    and fp: "false_positives (1/2) [[9/10], [4/5], [7/10], [1/10]] [[1], [1], [0], [0]] 0 = 1"
    and fn: "false_negatives (1/2) [[9/10], [4/5], [7/10], [1/10]] [[1], [1], [0], [0]] 0 = 0"
    by (simp_all add: true_positives_def false_positives_def false_negatives_def column_def
        predicted_positive_def)
  have p: "class_precision (1/2) [[9/10], [4/5], [7/10], [1/10]] [[1], [1], [0], [0]] 0 = 2/3"
    by (simp add: class_precision_def tp fp precision_def)
  have r: "class_recall (1/2) [[9/10], [4/5], [7/10], [1/10]] [[1], [1], [0], [0]] 0 = 1"
    by (simp add: class_recall_def tp fn recall_def)
  have f: "class_f1 (1/2) [[9/10], [4/5], [7/10], [1/10]] [[1], [1], [0], [0]] 0 = 4/5"
    by (simp add: class_f1_def p r f1_score_def)
  have g1: "class_precision thr P L c =
     (if true_positives thr P L c + false_positives thr P L c = 0 then 0
      else of_nat (true_positives thr P L c)
           / of_nat (true_positives thr P L c + false_positives thr P L c))"
    by (simp only: class_precision_def precision_def)
  have g2: "class_recall thr P L c =
     (if true_positives thr P L c + false_negatives thr P L c = 0 then 0
      else of_nat (true_positives thr P L c)
           / of_nat (true_positives thr P L c + false_negatives thr P L c))"
    by (simp only: class_recall_def recall_def)
  have g3: "class_f1 thr P L c =
     (if class_precision thr P L c = 0 \<and> class_recall thr P L c = 0 then 0
      else 2 / (1 / class_precision thr P L c + 1 / class_recall thr P L c))"
    unfolding class_f1_def class_precision_def class_recall_def by (rule f1_harmonic)
  from g1 g2 g3 tp fp fn p r f show ?thesis
    by (intro conjI)
qed

lemma column_cast:
  assumes "\<forall>row \<in> set L. length row = C" and "c < C"
  shows "column (map (map rat_of_int) L) c = map rat_of_int (column L c)"
  using assms by (simp add: column_def)

lemma column_binary:
  assumes "\<forall>row \<in> set L. length row = C \<and> (\<forall>l \<in> set row. l = 0 \<or> l = 1)" and "c < C"
  shows "\<forall>l \<in> set (column L c). l = 0 \<or> l = 1"
  using assms by (auto simp: column_def)

lemma zip_cast: "zip (map rat_of_int ls) ls = map (\<lambda>l. (rat_of_int l, l)) ls"
  by (induction ls) simp_all

lemma perfect_counts:
  assumes bin: "\<forall>l \<in> set ls. l = 0 \<or> l = (1::int)" and thr: "0 \<le> thr" "thr < 1"
  shows "filter (\<lambda>(p, l). predicted_positive thr p \<and> l = 1) (zip (map rat_of_int ls) ls)
           = map (\<lambda>l. (rat_of_int l, l)) (filter (\<lambda>l. l = 1) ls)"
    and "filter (\<lambda>(p, l). predicted_positive thr p \<and> l \<noteq> 1) (zip (map rat_of_int ls) ls) = []"
    and "filter (\<lambda>(p, l). \<not> predicted_positive thr p \<and> l = 1) (zip (map rat_of_int ls) ls) = []"
  using bin thr by (induction ls) (auto simp: predicted_positive_def)

lemma perfect_class:
  assumes rect: "\<forall>row \<in> set L. length row = C \<and> (\<forall>l \<in> set row. l = 0 \<or> l = 1)"
    and c: "c < C" and thr: "0 \<le> thr" "thr < 1"
  shows "true_positives thr (map (map rat_of_int) L) L c = positive_labels L c"
    and "false_positives thr (map (map rat_of_int) L) L c = 0"
    and "false_negatives thr (map (map rat_of_int) L) L c = 0"
proof -
  have col: "column (map (map rat_of_int) L) c = map rat_of_int (column L c)"
    by (rule column_cast [of L C]) (use rect c in simp_all)
  have bin: "\<forall>l \<in> set (column L c). l = 0 \<or> l = 1"
    using rect c by (rule column_binary)
  show "true_positives thr (map (map rat_of_int) L) L c = positive_labels L c"
    by (simp add: true_positives_def positive_labels_def col perfect_counts(1) [OF bin thr])
  show "false_positives thr (map (map rat_of_int) L) L c = 0"
    by (simp add: false_positives_def col perfect_counts(2) [OF bin thr])
  show "false_negatives thr (map (map rat_of_int) L) L c = 0"
    by (simp add: false_negatives_def col perfect_counts(3) [OF bin thr])
qed

lemma positive_labels_pos:
  assumes "row \<in> set L" and "row ! c = 1"
  shows "0 < positive_labels L c"
proof -
  have "row ! c \<in> set (column L c)"
    using assms(1) by (simp add: column_def)
  then have "1 \<in> set (filter (\<lambda>l. l = 1) (column L c))"
    using assms(2) by simp
  then show ?thesis
    unfolding positive_labels_def by (simp only: length_pos_if_in_set)
qed

lemma positive_labels_row:
  assumes "positive_labels L c \<noteq> 0"
  shows "\<exists>row \<in> set L. row ! c = 1"
proof -
  from assms have "filter (\<lambda>l. l = 1) (column L c) \<noteq> []"
    by (simp add: positive_labels_def)
  then obtain l where "l \<in> set (column L c)" and "l = 1"
    by (auto simp: filter_empty_conv)
  then show ?thesis
    by (auto simp: column_def)
qed

lemma f1_perfect:
  "0 < tp \<Longrightarrow> f1_score (precision tp 0) (recall tp 0) = 1"
  by (simp add: f1_score_def precision_def recall_def)

lemma sum_list_const_upt: "(\<Sum>c\<leftarrow>[0..<C]. (1::rat)) = of_nat C"
  by (induction C) simp_all

text \<open>
  Claim C6. For every label tensor with at least one class, the same number of columns in
  every row and entries 0 or 1, whose classes all have a positive label, the labels
  themselves taken as predictions have macro-F1 and micro-F1 equal to 1, for every
  threshold from 0 up to but excluding 1; these are then the two scores that
  \<open>evaluate_model\<close> prints.
\<close>

theorem perfect_predictions_f1:
  assumes C: "0 < C"
    and rect: "\<forall>row \<in> set L. length row = C \<and> (\<forall>l \<in> set row. l = 0 \<or> l = 1)"
    and pos: "\<forall>c < C. \<exists>row \<in> set L. row ! c = 1"
    and thr: "0 \<le> thr" "thr < 1"
  shows "macro_f1 thr C (map (map rat_of_int) L) L = 1
       \<and> micro_f1 thr C (map (map rat_of_int) L) L = 1
       \<and> evaluate_model_scores thr (map (map rat_of_int) L) L = (1, 1)"
proof -
  let ?P = "map (map rat_of_int) L"
  have cls: "class_f1 thr ?P L c = 1" if "c < C" for c
  proof -
    from pos that obtain row where "row \<in> set L" and "row ! c = 1"
      by blast
    then have "0 < positive_labels L c"
      by (rule positive_labels_pos)
    then show ?thesis
      by (simp add: class_f1_def class_precision_def class_recall_def
          perfect_class [OF rect that thr] f1_perfect)
  qed
  have "map (class_f1 thr ?P L) [0..<C] = map (\<lambda>c. 1) [0..<C]"
    by (rule map_cong) (simp_all add: cls)
  then have "(\<Sum>c\<leftarrow>[0..<C]. class_f1 thr ?P L c) = of_nat C"
    by (simp only: sum_list_const_upt)
  then have macro: "macro_f1 thr C ?P L = 1"
    using C by (simp add: macro_f1_def)
  have fp: "map (false_positives thr ?P L) [0..<C] = map (\<lambda>c. 0) [0..<C]"
    by (rule map_cong) (simp_all add: perfect_class(2) [OF rect _ thr])
  have fn: "map (false_negatives thr ?P L) [0..<C] = map (\<lambda>c. 0) [0..<C]"
    by (rule map_cong) (simp_all add: perfect_class(3) [OF rect _ thr])
  have "0 < true_positives thr ?P L 0"
  proof -
    from pos C obtain row where "row \<in> set L" and "row ! 0 = 1"
      by blast
    then have "0 < positive_labels L 0"
      by (rule positive_labels_pos)
    then show ?thesis
      by (simp add: perfect_class(1) [OF rect C thr])
  qed
  moreover have "true_positives thr ?P L 0 \<in> set (map (true_positives thr ?P L) [0..<C])"
    using C by simp
  ultimately have tp: "0 < (\<Sum>c\<leftarrow>[0..<C]. true_positives thr ?P L c)"
    using member_le_sum_list by fastforce
  have micro: "micro_f1 thr C ?P L = 1"
    using tp by (simp add: micro_f1_def fp fn f1_perfect)
  from pos C obtain row where "row \<in> set L"
    by blast
  then obtain r rs where "L = r # rs"
    by (cases L) auto
  then have "num_columns ?P = C"
    using rect by (simp add: num_columns_def)
  with macro micro show ?thesis
    by (simp add: evaluate_model_scores_def)
qed

theorem perfect_predictions_f1_witness:
  "macro_f1 (1/2) 2 (map (map rat_of_int) [[1, 0], [0, 1], [1, 1]]) [[1, 0], [0, 1], [1, 1]] = 1
   \<and> micro_f1 (1/2) 2 (map (map rat_of_int) [[1, 0], [0, 1], [1, 1]]) [[1, 0], [0, 1], [1, 1]] = 1
   \<and> evaluate_model_scores (1/2) (map (map rat_of_int) [[1, 0], [0, 1], [1, 1]])
         [[1, 0], [0, 1], [1, 1]] = (1, 1)"
proof -
  have h1: "0 < (2::nat)"
    by simp
  have h2: "\<forall>row \<in> set [[1, 0], [0, 1], [1, 1 :: int]]. length row = 2 \<and> (\<forall>l \<in> set row. l = 0 \<or> l = 1)"
    by simp
  have h3: "\<forall>c < 2. \<exists>row \<in> set [[1, 0], [0, 1], [1, 1 :: int]]. row ! c = 1"
    by (simp add: less_Suc_eq numeral_2_eq_2)
  have h4: "(0::rat) \<le> 1/2" and h5: "(1/2::rat) < 1"
    by simp_all
  show ?thesis
    by (rule perfect_predictions_f1 [OF h1 h2 h3 h4 h5])
qed

text \<open>
  Claim C7. Every class in the list of classes with F1 exactly 0 has a positive
  ground-truth label; a class without an actual positive and without a predicted positive
  is not in the list.
\<close>

theorem zero_f1_report:
  "(\<forall>c \<in> set (zero_f1_classes thr C P L).
       c < C \<and> class_f1 thr P L c = 0 \<and> (\<exists>row \<in> set L. row ! c = 1))
   \<and> ((\<forall>row \<in> set L. row ! c \<noteq> 1) \<and> (\<forall>row \<in> set P. \<not> predicted_positive thr (row ! c))
        \<longrightarrow> c \<notin> set (zero_f1_classes thr C P L))"
proof (intro conjI ballI impI)
  fix k assume k: "k \<in> set (zero_f1_classes thr C P L)"
  then show "k < C" and "class_f1 thr P L k = 0"
    by (simp_all add: zero_f1_classes_def)
  from k have "positive_labels L k \<noteq> 0"
    by (simp add: zero_f1_classes_def)
  then show "\<exists>row \<in> set L. row ! k = 1"
    by (rule positive_labels_row)
next
  assume "(\<forall>row \<in> set L. row ! c \<noteq> 1) \<and> (\<forall>row \<in> set P. \<not> predicted_positive thr (row ! c))"
  then have "positive_labels L c = 0"
    using positive_labels_row [of L c] by blast
  then show "c \<notin> set (zero_f1_classes thr C P L)"
    by (simp add: zero_f1_classes_def)
qed

theorem zero_f1_report_witness:
  "zero_f1_classes (1/2) 3 [[9/10, 1/10, 1/10], [1/5, 3/10, 0]] [[1, 1, 0], [0, 0, 0]] = [1]
   \<and> class_f1 (1/2) [[9/10, 1/10, 1/10], [1/5, 3/10, 0]] [[1, 1, 0], [0, 0, 0]] 1 = 0
   \<and> class_f1 (1/2) [[9/10, 1/10, 1/10], [1/5, 3/10, 0]] [[1, 1, 0], [0, 0, 0]] 2 = 0
   \<and> 2 \<notin> set (zero_f1_classes (1/2) 3 [[9/10, 1/10, 1/10], [1/5, 3/10, 0]] [[1, 1, 0], [0, 0, 0]])"
proof -
  let ?P = "[[9/10, 1/10, 1/10], [1/5, 3/10, 0 :: rat]]"
  let ?L = "[[1, 1, 0], [0, 0, 0 :: int]]"
  note T = zero_f1_report [of "1/2" 3 ?P ?L 2]
  have f0: "class_f1 (1/2) ?P ?L 0 = 1"
    by (simp add: class_f1_def class_precision_def class_recall_def true_positives_def
        false_positives_def false_negatives_def column_def predicted_positive_def
        precision_def recall_def f1_score_def)
  have f1: "class_f1 (1/2) ?P ?L 1 = 0"
    by (simp add: class_f1_def class_precision_def class_recall_def true_positives_def
        false_positives_def false_negatives_def column_def predicted_positive_def
        precision_def recall_def f1_score_def)
  have f2: "class_f1 (1/2) ?P ?L 2 = 0"
    by (simp add: class_f1_def class_precision_def class_recall_def true_positives_def
        false_positives_def false_negatives_def column_def predicted_positive_def
        precision_def recall_def f1_score_def)
  have p: "positive_labels ?L 0 = 1" "positive_labels ?L 1 = 1" "positive_labels ?L 2 = 0"
    by (simp_all add: positive_labels_def column_def)
  have u: "[0..<3] = [0, 1, 2]"
    by (simp add: upt_rec)
  have s: "class_f1 (1/2) ?P ?L (Suc 0) = 0" "positive_labels ?L (Suc 0) = 1"
    using f1 p(2) by simp_all
  have z: "zero_f1_classes (1/2) 3 ?P ?L = [1]"
    by (simp add: zero_f1_classes_def u f0 f2 p s)
  have h: "(\<forall>row \<in> set ?L. row ! 2 \<noteq> 1) \<and> (\<forall>row \<in> set ?P. \<not> predicted_positive (1/2) (row ! 2))"
    by (simp add: predicted_positive_def)
  have "(\<forall>row \<in> set ?L. row ! 2 \<noteq> 1) \<and> (\<forall>row \<in> set ?P. \<not> predicted_positive (1/2) (row ! 2))
          \<longrightarrow> 2 \<notin> set (zero_f1_classes (1/2) 3 ?P ?L)"
    using T by (rule conjunct2)
  from this h have "2 \<notin> set (zero_f1_classes (1/2) 3 ?P ?L)"
    by (rule mp)
  with z f1 f2 show ?thesis
    by (intro conjI)
qed

section \<open>Properties of the constants check\<close>







end
